theory Spec2Isabelle
  imports Complex_Main
begin

section \<open>Common Python notions\<close>

text \<open>
  The two notebooks are Python. Exceptions are values of \<open>py_error\<close>, and a cell or an
  expression that can raise returns \<open>py_error + 'a\<close> with \<open>Inl\<close> for the exception.
  Python floats are idealised as real numbers (no rounding); the non-finite floats that
  the code tests for explicitly are modelled where they occur.
\<close>

datatype py_error = KeyError | IndexError | NameError | ValueError | ZeroDivisionError
  | TypeError | IOError | DuplicateColumn

text \<open>\<^verbatim>\<open>xs[i]\<close> for a non-negative index: IndexError out of range.\<close>

definition py_index :: "'a list \<Rightarrow> nat \<Rightarrow> py_error + 'a" where
  "py_index xs i = (if i < length xs then Inr (xs ! i) else Inl IndexError)"

section \<open>redshift-database.ipynb: initial setup\<close>

text \<open>
  \<^verbatim>\<open>os.path.join(a, *p)\<close> of posixpath: a component that starts with the separator
  replaces what was joined so far; a separator is inserted unless the path so far is
  empty or already ends with one.
\<close>

definition join_step :: "string \<Rightarrow> string \<Rightarrow> string" where
  "join_step path b =
     (if b \<noteq> [] \<and> hd b = CHR ''/'' then b
      else if path = [] \<or> last path = CHR ''/'' then path @ b
      else path @ ''/'' @ b)"

definition os_path_join :: "string \<Rightarrow> string list \<Rightarrow> string" where
  "os_path_join a p = foldl join_step a p"

text \<open>\<^verbatim>\<open>os.environ[k]\<close>: KeyError when the variable is not set.\<close>

definition environ_get :: "(string \<rightharpoonup> string) \<Rightarrow> string \<Rightarrow> py_error + string" where
  "environ_get env k = (case env k of None \<Rightarrow> Inl KeyError | Some v \<Rightarrow> Inr v)"

definition reference_run :: string where
  "reference_run = ''19.12''"

definition program :: string where
  "program = ''dark''"

text \<open>The names the first code cell binds, with the process environment it leaves.\<close>

record nb_paths =
  environ :: "string \<rightharpoonup> string"
  basedir :: string
  surveydir :: string
  targetdir :: string
  fibassigndir :: string
  reduxdir :: string
  simdatadir :: string

text \<open>
  The "Paths to files, etc." part of the first cell, statement by statement. Every read
  of \<^verbatim>\<open>os.environ\<close> is a lookup that can raise, also the reads of variables the
  cell has just set.
\<close>

definition initial_setup :: "(string \<rightharpoonup> string) \<Rightarrow> py_error + nb_paths" where
  "initial_setup env0 =
     (case environ_get env0 ''DESI_ROOT'' of Inl e \<Rightarrow> Inl e | Inr desi_root \<Rightarrow>
      let basedir = os_path_join desi_root [''datachallenge'', ''reference_runs'', reference_run];
          surveydir = os_path_join basedir [''survey''];
          env1 = env0(''DESISURVEY_OUTPUT'' \<mapsto> surveydir);
          targetdir = os_path_join basedir [''targets''];
          fibassigndir = os_path_join basedir [''fiberassign''];
          env2 = env1(''DESI_SPECTRO_REDUX'' \<mapsto> os_path_join basedir [''spectro'', ''redux'']);
          env3 = env2(''DESI_SPECTRO_SIM'' \<mapsto> os_path_join basedir [''spectro'', ''sim'']);
          env4 = env3(''PIXPROD'' \<mapsto> ''mini'');
          env5 = env4(''SPECPROD'' \<mapsto> ''mini'')
      in
      case environ_get env5 ''DESI_SPECTRO_REDUX'' of Inl e \<Rightarrow> Inl e | Inr redux \<Rightarrow>
      case environ_get env5 ''SPECPROD'' of Inl e \<Rightarrow> Inl e | Inr specprod \<Rightarrow>
      let reduxdir = os_path_join redux [specprod] in
      case environ_get env5 ''DESI_SPECTRO_SIM'' of Inl e \<Rightarrow> Inl e | Inr sim \<Rightarrow>
      case environ_get env5 ''PIXPROD'' of Inl e \<Rightarrow> Inl e | Inr pixprod \<Rightarrow>
      let simdatadir = os_path_join sim [pixprod];
          env6 = env5(''DESI_SPECTRO_DATA'' \<mapsto> simdatadir)
      in Inr \<lparr>environ = env6, basedir = basedir, surveydir = surveydir,
               targetdir = targetdir, fibassigndir = fibassigndir,
               reduxdir = reduxdir, simdatadir = simdatadir\<rparr>)"

section \<open>redshift-database.ipynb: the database and its loading stage\<close>

text \<open>
  Column values. A row, of a FITS table or of a database table, maps column names to
  values; a column the row does not have (or an SQL NULL) is \<open>None\<close>.
\<close>

datatype val = IntV int | FloatV real | StrV string | ArrV "real list"

type_synonym row = "string \<rightharpoonup> val"

text \<open>The five tables of \<^verbatim>\<open>desispec.database.redshift\<close> that the notebook names.\<close>

datatype tcls = ObsList | Truth | Target | ZCat | FiberAssign

record database =
  obslist :: "row list"
  truth :: "row list"
  target :: "row list"
  zcat :: "row list"
  fiberassign :: "row list"

definition empty_db :: database where
  "empty_db = \<lparr>obslist = [], truth = [], target = [], zcat = [], fiberassign = []\<rparr>"

text \<open>
  The files the loading stage reads: a FITS file is a map from HDU names to tables, and a
  fiberassign directory lists its tile files as pairs of tile id and table.
\<close>

record filesystem =
  files :: "string \<rightharpoonup> (string \<rightharpoonup> row list)"
  tiles :: "string \<Rightarrow> (int \<times> row list) list"

text \<open>\<^verbatim>\<open>str.upper()\<close> on the ASCII letters of a column name.\<close>

definition upper_char :: "char \<Rightarrow> char" where
  "upper_char c =
     (case map_of (zip ''abcdefghijklmnopqrstuvwxyz'' ''ABCDEFGHIJKLMNOPQRSTUVWXYZ'') c of
        Some u \<Rightarrow> u | None \<Rightarrow> c)"

definition str_upper :: "string \<Rightarrow> string" where
  "str_upper s = map upper_char s"

text \<open>
  The \<^verbatim>\<open>expand\<close> option of \<^verbatim>\<open>db.load_file\<close>: a FITS column is renamed, or an
  array-valued FITS column is spread over scalar database columns.
\<close>

datatype expansion = Rename string | Spread "string list"

type_synonym expand = "(string \<times> expansion) list"

text \<open>
  \<^verbatim>\<open>db.load_file\<close>, \<^verbatim>\<open>db.update_truth\<close>, \<^verbatim>\<open>db.load_fiberassign\<close> and
  \<^verbatim>\<open>db.setup_db\<close> belong to the external package \<^verbatim>\<open>desispec\<close>; the notebook only
  calls them. They are modelled after what the notebook's own text says of them: the
  table of an HDU is read, "the rowfilter option eliminates those rows" for which the
  filter is false, "the expand option renames the column" or "expands an array-valued
  column into corresponding scalar database columns", and the rows are inserted into the
  table of the given class. A database column is the lower-case name of a FITS column.

  \<open>source_column ex a\<close> is where the database column \<open>a\<close> comes from: the FITS column and,
  for a spread column, the position in its array.
\<close>

fun index_of :: "'a list \<Rightarrow> 'a \<Rightarrow> nat option" where
  "index_of [] a = None"
| "index_of (x # xs) a = (if x = a then Some 0 else map_option Suc (index_of xs a))"

fun source_column :: "expand \<Rightarrow> string \<Rightarrow> (string \<times> nat option) option" where
  "source_column [] a = Some (str_upper a, None)"
| "source_column ((col, Rename n) # ex) a =
     (if a = n then Some (col, None)
      else if str_upper a = col then None
      else source_column ex a)"
| "source_column ((col, Spread ns) # ex) a =
     (case index_of ns a of Some j \<Rightarrow> Some (col, Some j)
      | None \<Rightarrow> if str_upper a = col then None else source_column ex a)"

definition to_db_row :: "expand \<Rightarrow> row \<Rightarrow> row" where
  "to_db_row ex r a =
     (case source_column ex a of
        None \<Rightarrow> None
      | Some (col, None) \<Rightarrow> r col
      | Some (col, Some j) \<Rightarrow>
          (case r col of
             Some (ArrV xs) \<Rightarrow> if j < length xs then Some (FloatV (xs ! j)) else None
           | _ \<Rightarrow> None))"

text \<open>
  A row filter is applied to the whole table at once, as numpy does: \<^verbatim>\<open>x['NAME']\<close> is
  the column as an array (an error when the table has no such column) and the
  comparisons are elementwise, giving one boolean per row.
\<close>

definition column :: "row list \<Rightarrow> string \<Rightarrow> py_error + val list" where
  "column x name =
     (if list_all (\<lambda>r. r name \<noteq> None) x then Inr (map (\<lambda>r. the (r name)) x)
      else Inl KeyError)"

definition select_rows :: "bool list \<Rightarrow> 'a list \<Rightarrow> 'a list" where
  "select_rows good_rows x = map snd (filter fst (zip good_rows x))"

definition insert_rows :: "tcls \<Rightarrow> row list \<Rightarrow> database \<Rightarrow> database" where
  "insert_rows t rs db =
     (case t of
        ObsList \<Rightarrow> db\<lparr>obslist := obslist db @ rs\<rparr>
      | Truth \<Rightarrow> db\<lparr>truth := truth db @ rs\<rparr>
      | Target \<Rightarrow> db\<lparr>target := target db @ rs\<rparr>
      | ZCat \<Rightarrow> db\<lparr>zcat := zcat db @ rs\<rparr>
      | FiberAssign \<Rightarrow> db\<lparr>fiberassign := fiberassign db @ rs\<rparr>)"

definition read_hdu :: "filesystem \<Rightarrow> string \<Rightarrow> string \<Rightarrow> py_error + row list" where
  "read_hdu fs filepath hdu =
     (case files fs filepath of
        None \<Rightarrow> Inl IOError
      | Some hdulist \<Rightarrow> (case hdulist hdu of None \<Rightarrow> Inl KeyError | Some x \<Rightarrow> Inr x))"

definition load_file ::
  "filesystem \<Rightarrow> string \<Rightarrow> tcls \<Rightarrow> string \<Rightarrow> expand \<Rightarrow>
   (row list \<Rightarrow> py_error + bool list) option \<Rightarrow> database \<Rightarrow> py_error + database" where
  "load_file fs filepath t hdu ex rowfilter db =
     (case read_hdu fs filepath hdu of
        Inl e \<Rightarrow> Inl e
      | Inr x \<Rightarrow>
          (case (case rowfilter of None \<Rightarrow> Inr (map (\<lambda>_. True) x) | Some f \<Rightarrow> f x) of
             Inl e \<Rightarrow> Inl e
           | Inr good_rows \<Rightarrow>
               Inr (insert_rows t (map (to_db_row ex) (select_rows good_rows x)) db)))"

text \<open>
  \<^verbatim>\<open>db.update_truth\<close> adds the columns of one of the \<^verbatim>\<open>TRUTH_*\<close> HDUs to the rows
  of \<open>truth\<close> that have the same \<open>targetid\<close>; it inserts and removes no row.
\<close>

definition merge_truth :: "row \<Rightarrow> row \<Rightarrow> row" where
  "merge_truth t u =
     (if t ''targetid'' \<noteq> None \<and> t ''targetid'' = u ''TARGETID''
      then (\<lambda>a. case u (str_upper a) of Some v \<Rightarrow> Some v | None \<Rightarrow> t a)
      else t)"

definition update_truth :: "filesystem \<Rightarrow> string \<Rightarrow> string \<Rightarrow> database \<Rightarrow> py_error + database" where
  "update_truth fs filepath hdu db =
     (case read_hdu fs filepath hdu of
        Inl e \<Rightarrow> Inl e
      | Inr x \<Rightarrow> Inr (db\<lparr>truth := map (\<lambda>t. foldl merge_truth t x) (truth db)\<rparr>))"

text \<open>
  \<^verbatim>\<open>db.load_fiberassign\<close> reads every tile file of the directory and inserts its rows,
  each with the tile's id, into \<open>fiberassign\<close>.
\<close>

definition load_fiberassign :: "filesystem \<Rightarrow> string \<Rightarrow> database \<Rightarrow> database" where
  "load_fiberassign fs datapath db =
     insert_rows FiberAssign
       (concat (map (\<lambda>(tileid, x). map (\<lambda>r. (to_db_row [] r)(''tileid'' \<mapsto> IntV tileid)) x)
                    (tiles fs datapath))) db"

text \<open>
  \<^verbatim>\<open>db.setup_db(dbfile=..., overwrite=...)\<close>: with \<^verbatim>\<open>overwrite=True\<close> an existing
  database file is replaced by an empty database; otherwise an existing file is opened
  as it is.
\<close>

definition setup_db :: "database option \<Rightarrow> bool \<Rightarrow> database" where
  "setup_db dbfile overwrite =
     (case dbfile of None \<Rightarrow> empty_db | Some db \<Rightarrow> if overwrite then empty_db else db)"

text \<open>The two row filters of the notebook, \<^verbatim>\<open>lambda x: ...\<close>.\<close>

definition obslist_rowfilter :: "row list \<Rightarrow> py_error + bool list" where
  "obslist_rowfilter x =
     (case column x ''PROGRAM'' of
        Inl e \<Rightarrow> Inl e
      | Inr c \<Rightarrow> Inr (map (\<lambda>v. v \<noteq> StrV ''CALIB'') c))"

definition zcat_rowfilter :: "row list \<Rightarrow> py_error + bool list" where
  "zcat_rowfilter x =
     (case column x ''TARGETID'' of
        Inl e \<Rightarrow> Inl e
      | Inr c \<Rightarrow>
          (case column x ''TARGETID'' of
             Inl e \<Rightarrow> Inl e
           | Inr c' \<Rightarrow>
               Inr (map2 (\<lambda>a b. a \<and> b) (map (\<lambda>v. v \<noteq> IntV 0) c) (map (\<lambda>v. v \<noteq> IntV (- 1)) c'))))"

text \<open>The \<^verbatim>\<open>expand\<close> arguments of the three calls that pass one.\<close>

definition obslist_expand :: expand where
  "obslist_expand = [(''PASS'', Rename ''passnum'')]"

definition target_expand :: expand where
  "target_expand =
     [(''DCHISQ'', Spread [''dchisq_psf'', ''dchisq_rex'', ''dchisq_dev'', ''dchisq_exp'', ''dchisq_comp''])]"

definition zcat_expand :: expand where
  "zcat_expand =
     [(''COEFF'', Spread [''coeff_0'', ''coeff_1'', ''coeff_2'', ''coeff_3'', ''coeff_4'',
                          ''coeff_5'', ''coeff_6'', ''coeff_7'', ''coeff_8'', ''coeff_9''])]"

text \<open>The loop \<^verbatim>\<open>for h in (...): db.update_truth(..., 'TRUTH_' + h)\<close>.\<close>

fun update_truth_all :: "filesystem \<Rightarrow> string \<Rightarrow> string list \<Rightarrow> database \<Rightarrow> py_error + database" where
  "update_truth_all fs filepath [] db = Inr db"
| "update_truth_all fs filepath (h # hs) db =
     (case update_truth fs filepath (''TRUTH_'' @ h) db of
        Inl e \<Rightarrow> Inl e
      | Inr db' \<Rightarrow> update_truth_all fs filepath hs db')"

text \<open>
  The cells of "Loading the Database", in the notebook's order: create the empty
  database, the list of exposures, the truth and target tables, the redshift catalog,
  the fiberassign outputs.
\<close>

definition load_database :: "filesystem \<Rightarrow> nb_paths \<Rightarrow> database option \<Rightarrow> py_error + database" where
  "load_database fs p dbfile =
     (let db0 = setup_db dbfile True in
      case load_file fs (os_path_join (surveydir p) [''exposures.fits'']) ObsList ''EXPOSURES''
             obslist_expand (Some obslist_rowfilter) db0 of
        Inl e \<Rightarrow> Inl e | Inr db1 \<Rightarrow>
      case load_file fs (os_path_join (targetdir p) [''truth-'' @ program @ ''.fits'']) Truth ''TRUTH''
             [] None db1 of
        Inl e \<Rightarrow> Inl e | Inr db2 \<Rightarrow>
      case update_truth_all fs (os_path_join (targetdir p) [''truth-'' @ program @ ''.fits''])
             [''BGS'', ''ELG'', ''LRG'', ''QSO'', ''STAR'', ''WD''] db2 of
        Inl e \<Rightarrow> Inl e | Inr db3 \<Rightarrow>
      case load_file fs (os_path_join (targetdir p) [''targets-'' @ program @ ''.fits'']) Target ''TARGETS''
             target_expand None db3 of
        Inl e \<Rightarrow> Inl e | Inr db4 \<Rightarrow>
      case load_file fs (os_path_join (reduxdir p) [''zcatalog-mini.fits'']) ZCat ''ZCATALOG''
             zcat_expand (Some zcat_rowfilter) db4 of
        Inl e \<Rightarrow> Inl e | Inr db5 \<Rightarrow>
      Inr (load_fiberassign fs (fibassigndir p) db5))"

text \<open>The first cell followed by the loading stage.\<close>

definition setup_and_load ::
  "(string \<rightharpoonup> string) \<Rightarrow> filesystem \<Rightarrow> database option \<Rightarrow> py_error + (nb_paths \<times> database)" where
  "setup_and_load env0 fs dbfile =
     (case initial_setup env0 of
        Inl e \<Rightarrow> Inl e
      | Inr p \<Rightarrow> (case load_database fs p dbfile of Inl e \<Rightarrow> Inl e | Inr db \<Rightarrow> Inr (p, db)))"

section \<open>redshift-database.ipynb: queries on the loaded database\<close>

text \<open>
  The readings of a column value that SQL and Python share: a number (float columns hold
  \<open>FloatV\<close>, integer columns \<open>IntV\<close>) or nothing, for NULL and for a value of another type.
\<close>

definition num :: "val option \<Rightarrow> real option" where
  "num v = (case v of Some (FloatV x) \<Rightarrow> Some x | Some (IntV i) \<Rightarrow> Some (of_int i) | _ \<Rightarrow> None)"

text \<open>SQL comparison: a comparison with NULL is not true, so the row is not selected.\<close>

definition sql_eq :: "val option \<Rightarrow> val option \<Rightarrow> bool" where
  "sql_eq a b = (a \<noteq> None \<and> a = b)"

definition sql_ge :: "val option \<Rightarrow> real \<Rightarrow> bool" where
  "sql_ge v x = (case num v of Some y \<Rightarrow> x \<le> y | None \<Rightarrow> False)"

text \<open>
  SQL \<^verbatim>\<open>LIKE\<close>: \<^verbatim>\<open>%\<close> matches any run of characters, \<^verbatim>\<open>_\<close> any one character. Two
  other characters match when they are equal after \<open>casefold\<close>: the identity for a
  case-sensitive LIKE (PostgreSQL), the folding of ASCII letters for SQLite's default.
\<close>

fun like :: "(char \<Rightarrow> char) \<Rightarrow> string \<Rightarrow> string \<Rightarrow> bool" where
  "like casefold [] [] = True"
| "like casefold [] (c # s) = False"
| "like casefold (p # ps) [] = (p = CHR ''%'' \<and> like casefold ps [])"
| "like casefold (p # ps) (c # s) =
     (if p = CHR ''%'' then like casefold ps (c # s) \<or> like casefold (p # ps) s
      else (p = CHR ''_'' \<or> casefold p = casefold c) \<and> like casefold ps s)"

definition sql_like :: "(char \<Rightarrow> char) \<Rightarrow> val option \<Rightarrow> string \<Rightarrow> bool" where
  "sql_like casefold v pat = (case v of Some (StrV s) \<Rightarrow> like casefold pat s | _ \<Rightarrow> False)"

subsection \<open>A join: true redshift against measured redshift\<close>

text \<open>
  \<^verbatim>\<open>db.dbSession.query(db.Truth, db.ZCat).filter(db.Truth.targetid == db.ZCat.targetid).all()\<close>
\<close>

definition join_truth_zcat :: "database \<Rightarrow> (row \<times> row) list" where
  "join_truth_zcat db =
     concat (map (\<lambda>t. map (\<lambda>z. (t, z)) (filter (\<lambda>z. sql_eq (t ''targetid'') (z ''targetid'')) (zcat db)))
                 (truth db))"

text \<open>
  Python arithmetic on two attribute values: TypeError when an operand is None (or not a
  number), ZeroDivisionError on a zero divisor.
\<close>

definition py_num :: "val option \<Rightarrow> py_error + real" where
  "py_num v = (case num v of None \<Rightarrow> Inl TypeError | Some x \<Rightarrow> Inr x)"

definition py_truediv :: "real \<Rightarrow> real \<Rightarrow> py_error + real" where
  "py_truediv a b = (if b = 0 then Inl ZeroDivisionError else Inr (a / b))"

text \<open>
  \<^verbatim>\<open>(row.ZCat.z - row.Truth.truez) / (1.0 + row.Truth.truez)\<close> for one joined row, the
  operands evaluated from left to right.
\<close>

definition py_dz :: "row \<times> row \<Rightarrow> py_error + real" where
  "py_dz rw =
     (case py_num (snd rw ''z'') of Inl e \<Rightarrow> Inl e | Inr z \<Rightarrow>
      case py_num (fst rw ''truez'') of Inl e \<Rightarrow> Inl e | Inr truez \<Rightarrow>
      case py_num (fst rw ''truez'') of Inl e \<Rightarrow> Inl e | Inr truez' \<Rightarrow>
      py_truediv (z - truez) (1.0 + truez'))"

text \<open>A list comprehension stops at the first exception.\<close>

fun py_list :: "('a \<Rightarrow> py_error + 'b) \<Rightarrow> 'a list \<Rightarrow> py_error + 'b list" where
  "py_list f [] = Inr []"
| "py_list f (x # xs) =
     (case f x of Inl e \<Rightarrow> Inl e
      | Inr y \<Rightarrow> (case py_list f xs of Inl e \<Rightarrow> Inl e | Inr ys \<Rightarrow> Inr (y # ys)))"

text \<open>
  \<^verbatim>\<open>astropy.constants.c\<close> is 299792458 m/s; \<^verbatim>\<open>.to('km / s')\<close> divides the value by
  1000.
\<close>

definition lightspeed :: real where
  "lightspeed = 299792458"

definition to_km_s :: "real \<Rightarrow> real" where
  "to_km_s v = v / 1000"

text \<open>
  \<^verbatim>\<open>dv = lightspeed.to('km / s') * np.array([... for row in q])\<close> of the cell after the
  join.
\<close>

definition dv_python :: "(row \<times> row) list \<Rightarrow> py_error + real list" where
  "dv_python q =
     (case py_list py_dz q of Inl e \<Rightarrow> Inl e | Inr dzs \<Rightarrow> Inr (map (\<lambda>d. to_km_s lightspeed * d) dzs))"

text \<open>
  The SQL side. An SQLAlchemy column expression is a tree, built by the overloaded
  operators; the database evaluates it on a joined row, with NULL for a NULL operand
  and for a division by zero.
\<close>

datatype sql_expr = Col tcls string | Lit real
  | Sub sql_expr sql_expr | Add sql_expr sql_expr | Div sql_expr sql_expr

fun sql_eval :: "(tcls \<Rightarrow> row) \<Rightarrow> sql_expr \<Rightarrow> real option" where
  "sql_eval rw (Col t c) = num (rw t c)"
| "sql_eval rw (Lit x) = Some x"
| "sql_eval rw (Sub a b) =
     (case (sql_eval rw a, sql_eval rw b) of (Some x, Some y) \<Rightarrow> Some (x - y) | _ \<Rightarrow> None)"
| "sql_eval rw (Add a b) =
     (case (sql_eval rw a, sql_eval rw b) of (Some x, Some y) \<Rightarrow> Some (x + y) | _ \<Rightarrow> None)"
| "sql_eval rw (Div a b) =
     (case (sql_eval rw a, sql_eval rw b) of
        (Some x, Some y) \<Rightarrow> if y = 0 then None else Some (x / y) | _ \<Rightarrow> None)"

text \<open>
  \<^verbatim>\<open>((db.ZCat.z - db.Truth.truez)/(1.0 + db.Truth.truez)).label('dz')\<close>
\<close>

definition dz_expr :: sql_expr where
  "dz_expr = Div (Sub (Col ZCat ''z'') (Col Truth ''truez'')) (Add (Lit 1.0) (Col Truth ''truez''))"

text \<open>
  A row of the three-table queries of "Efficiency Studies":
  \<^verbatim>\<open>query(db.Truth, db.Target, db.ZCat, (...).label('dz'))\<close> with the two filters on
  \<open>targetid\<close>.
\<close>

record qrow =
  Truth_of :: row
  Target_of :: row
  ZCat_of :: row
  dz :: "real option"

definition joined :: "row \<Rightarrow> row \<Rightarrow> row \<Rightarrow> tcls \<Rightarrow> row" where
  "joined t g z c = (case c of Truth \<Rightarrow> t | Target \<Rightarrow> g | ZCat \<Rightarrow> z | _ \<Rightarrow> Map.empty)"

definition efficiency_query :: "database \<Rightarrow> qrow list" where
  "efficiency_query db =
     concat (map (\<lambda>t. concat (map (\<lambda>g.
        map (\<lambda>z. \<lparr>Truth_of = t, Target_of = g, ZCat_of = z, dz = sql_eval (joined t g z) dz_expr\<rparr>)
            (filter (\<lambda>z. sql_eq (t ''targetid'') (z ''targetid'') \<and> sql_eq (g ''targetid'') (z ''targetid''))
                    (zcat db)))
        (target db))) (truth db))"

text \<open>
  \<^verbatim>\<open>dv = lightspeed.to('km / s').value * np.array(dz)\<close>, from the \<open>dz\<close> the database
  computed; a NULL among them makes the product raise.
\<close>

definition dv_sql :: "real option list \<Rightarrow> py_error + real list" where
  "dv_sql dzs =
     (case py_list (\<lambda>d. case d of None \<Rightarrow> Inl TypeError | Some x \<Rightarrow> Inr x) dzs of
        Inl e \<Rightarrow> Inl e
      | Inr ds \<Rightarrow> Inr (map (\<lambda>d. to_km_s lightspeed * d) ds))"

subsection \<open>Updates\<close>

text \<open>
  \<^verbatim>\<open>db.dbSession.query(db.Truth).filter(db.Truth.truez >= 2.1)
     .filter(db.Truth.templatetype.like('QSO%')).all()\<close>
\<close>

definition qso_filter :: "(char \<Rightarrow> char) \<Rightarrow> row \<Rightarrow> bool" where
  "qso_filter casefold r = (sql_ge (r ''truez'') 2.1 \<and> sql_like casefold (r ''templatetype'') ''QSO%'')"

definition query_qso :: "(char \<Rightarrow> char) \<Rightarrow> database \<Rightarrow> row list" where
  "query_qso casefold db = filter (qso_filter casefold) (truth db)"

text \<open>
  \<^verbatim>\<open>for row in q: row.templatetype = 'QSO_L'\<close> changes the objects of the session;
  \<^verbatim>\<open>db.dbSession.commit()\<close> then writes each changed object back with an UPDATE of the
  changed column on the row of its primary key, \<open>targetid\<close>.
\<close>

definition set_templatetype :: "row list \<Rightarrow> row list" where
  "set_templatetype q = map (\<lambda>row. row(''templatetype'' \<mapsto> StrV ''QSO_L'')) q"

definition sql_update_templatetype :: "row list \<Rightarrow> row \<Rightarrow> row list" where
  "sql_update_templatetype tbl obj =
     map (\<lambda>r. if r ''targetid'' = obj ''targetid'' then r(''templatetype'' := obj ''templatetype'') else r) tbl"

definition commit :: "row list \<Rightarrow> database \<Rightarrow> database" where
  "commit dirty db = db\<lparr>truth := foldl sql_update_templatetype (truth db) dirty\<rparr>"

definition update_qso :: "(char \<Rightarrow> char) \<Rightarrow> database \<Rightarrow> database" where
  "update_qso casefold db = commit (set_templatetype (query_qso casefold db)) db"

section \<open>A small file system for concrete runs\<close>







section \<open>Properties of the initial setup\<close>

lemma join_step_plain:
  "path \<noteq> [] \<Longrightarrow> last path \<noteq> CHR ''/'' \<Longrightarrow> b \<noteq> [] \<Longrightarrow> hd b \<noteq> CHR ''/'' \<Longrightarrow>
   join_step path b = path @ ''/'' @ b"
  by (simp add: join_step_def)

lemma basedir_plain:
  assumes "desi_root \<noteq> []" and "last desi_root \<noteq> CHR ''/''"
  shows "os_path_join desi_root [''datachallenge'', ''reference_runs'', reference_run] =
         desi_root @ ''/datachallenge/reference_runs/19.12''"
  using assms by (simp add: os_path_join_def join_step_def reference_run_def)

lemma join_basedir:
  "os_path_join (desi_root @ ''/datachallenge/reference_runs/19.12'') [''survey''] =
     desi_root @ ''/datachallenge/reference_runs/19.12/survey''"
  "os_path_join (desi_root @ ''/datachallenge/reference_runs/19.12'') [''targets''] =
     desi_root @ ''/datachallenge/reference_runs/19.12/targets''"
  "os_path_join (desi_root @ ''/datachallenge/reference_runs/19.12'') [''fiberassign''] =
     desi_root @ ''/datachallenge/reference_runs/19.12/fiberassign''"
  "os_path_join (desi_root @ ''/datachallenge/reference_runs/19.12'') [''spectro'', ''redux''] =
     desi_root @ ''/datachallenge/reference_runs/19.12/spectro/redux''"
  "os_path_join (desi_root @ ''/datachallenge/reference_runs/19.12'') [''spectro'', ''sim''] =
     desi_root @ ''/datachallenge/reference_runs/19.12/spectro/sim''"
  "os_path_join (desi_root @ ''/datachallenge/reference_runs/19.12/spectro/redux'') [''mini''] =
     desi_root @ ''/datachallenge/reference_runs/19.12/spectro/redux/mini''"
  "os_path_join (desi_root @ ''/datachallenge/reference_runs/19.12/spectro/sim'') [''mini''] =
     desi_root @ ''/datachallenge/reference_runs/19.12/spectro/sim/mini''"
  by (simp_all add: os_path_join_def join_step_def)

lemma initial_setup_plain:
  assumes "env0 ''DESI_ROOT'' = Some desi_root" and "desi_root \<noteq> []" and "last desi_root \<noteq> CHR ''/''"
  shows "initial_setup env0 = Inr
    \<lparr>environ = env0(''DESISURVEY_OUTPUT'' \<mapsto> desi_root @ ''/datachallenge/reference_runs/19.12/survey'',
                     ''DESI_SPECTRO_REDUX'' \<mapsto> desi_root @ ''/datachallenge/reference_runs/19.12/spectro/redux'',
                     ''DESI_SPECTRO_SIM'' \<mapsto> desi_root @ ''/datachallenge/reference_runs/19.12/spectro/sim'',
                     ''PIXPROD'' \<mapsto> ''mini'', ''SPECPROD'' \<mapsto> ''mini'',
                     ''DESI_SPECTRO_DATA'' \<mapsto> desi_root @ ''/datachallenge/reference_runs/19.12/spectro/sim/mini''),
      basedir = desi_root @ ''/datachallenge/reference_runs/19.12'',
      surveydir = desi_root @ ''/datachallenge/reference_runs/19.12/survey'',
      targetdir = desi_root @ ''/datachallenge/reference_runs/19.12/targets'',
      fibassigndir = desi_root @ ''/datachallenge/reference_runs/19.12/fiberassign'',
      reduxdir = desi_root @ ''/datachallenge/reference_runs/19.12/spectro/redux/mini'',
      simdatadir = desi_root @ ''/datachallenge/reference_runs/19.12/spectro/sim/mini''\<rparr>"
  unfolding initial_setup_def Let_def
  by (simp add: environ_get_def assms basedir_plain join_basedir)

text \<open>
  C10. With \<^verbatim>\<open>DESI_ROOT\<close> set (to a non-empty value that does not itself end with the
  separator), the first cell succeeds and leaves \<^verbatim>\<open>DESISURVEY_OUTPUT\<close>,
  \<^verbatim>\<open>DESI_SPECTRO_REDUX\<close>, \<^verbatim>\<open>DESI_SPECTRO_SIM\<close>, \<^verbatim>\<open>PIXPROD\<close>, \<^verbatim>\<open>SPECPROD\<close> and
  \<^verbatim>\<open>DESI_SPECTRO_DATA\<close> set to basedir/survey, basedir/spectro/redux,
  basedir/spectro/sim, mini, mini and basedir/spectro/sim/mini, where basedir is
  DESI_ROOT/datachallenge/reference_runs/19.12; the loading stage that follows runs on
  the result of this cell.
\<close>

theorem initial_setup_environment:
  assumes "env0 ''DESI_ROOT'' = Some desi_root" and "desi_root \<noteq> []" and "last desi_root \<noteq> CHR ''/''"
  shows "\<exists>p. initial_setup env0 = Inr p \<and>
     basedir p = desi_root @ ''/datachallenge/reference_runs/19.12'' \<and>
     environ p ''DESISURVEY_OUTPUT'' = Some (basedir p @ ''/survey'') \<and>
     environ p ''DESI_SPECTRO_REDUX'' = Some (basedir p @ ''/spectro/redux'') \<and>
     environ p ''DESI_SPECTRO_SIM'' = Some (basedir p @ ''/spectro/sim'') \<and>
     environ p ''PIXPROD'' = Some ''mini'' \<and>
     environ p ''SPECPROD'' = Some ''mini'' \<and>
     environ p ''DESI_SPECTRO_DATA'' = Some (basedir p @ ''/spectro/sim/mini'') \<and>
     setup_and_load env0 fs dbfile =
       (case load_database fs p dbfile of Inl e \<Rightarrow> Inl e | Inr db \<Rightarrow> Inr (p, db))"
  using initial_setup_plain [of env0 desi_root, OF assms] by (simp add: setup_and_load_def)

theorem initial_setup_environment_witness:
  "[''DESI_ROOT'' \<mapsto> ''/global/cfs/cdirs/desi''] ''DESI_ROOT'' = Some ''/global/cfs/cdirs/desi'' \<and>
   ''/global/cfs/cdirs/desi'' \<noteq> [] \<and> last ''/global/cfs/cdirs/desi'' \<noteq> CHR ''/'' \<and>
   (\<exists>p. initial_setup [''DESI_ROOT'' \<mapsto> ''/global/cfs/cdirs/desi''] = Inr p \<and>
      environ p ''DESISURVEY_OUTPUT'' =
        Some ''/global/cfs/cdirs/desi/datachallenge/reference_runs/19.12/survey'' \<and>
      environ p ''DESI_SPECTRO_REDUX'' =
        Some ''/global/cfs/cdirs/desi/datachallenge/reference_runs/19.12/spectro/redux'' \<and>
      environ p ''DESI_SPECTRO_SIM'' =
        Some ''/global/cfs/cdirs/desi/datachallenge/reference_runs/19.12/spectro/sim'' \<and>
      environ p ''PIXPROD'' = Some ''mini'' \<and> environ p ''SPECPROD'' = Some ''mini'' \<and>
      environ p ''DESI_SPECTRO_DATA'' =
        Some ''/global/cfs/cdirs/desi/datachallenge/reference_runs/19.12/spectro/sim/mini'')"
proof -
  have h1: "[''DESI_ROOT'' \<mapsto> ''/global/cfs/cdirs/desi''] ''DESI_ROOT'' = Some ''/global/cfs/cdirs/desi''"
    by simp
  have h2: "''/global/cfs/cdirs/desi'' \<noteq> []" by simp
  have h3: "last ''/global/cfs/cdirs/desi'' \<noteq> CHR ''/''" by simp
  from initial_setup_environment
         [of "[''DESI_ROOT'' \<mapsto> ''/global/cfs/cdirs/desi'']" "''/global/cfs/cdirs/desi''", OF h1 h2 h3]
  obtain p where
    "initial_setup [''DESI_ROOT'' \<mapsto> ''/global/cfs/cdirs/desi''] = Inr p"
    "basedir p = ''/global/cfs/cdirs/desi'' @ ''/datachallenge/reference_runs/19.12''"
    "environ p ''DESISURVEY_OUTPUT'' = Some (basedir p @ ''/survey'')"
    "environ p ''DESI_SPECTRO_REDUX'' = Some (basedir p @ ''/spectro/redux'')"
    "environ p ''DESI_SPECTRO_SIM'' = Some (basedir p @ ''/spectro/sim'')"
    "environ p ''PIXPROD'' = Some ''mini''"
    "environ p ''SPECPROD'' = Some ''mini''"
    "environ p ''DESI_SPECTRO_DATA'' = Some (basedir p @ ''/spectro/sim/mini'')"
    by blast
  then show ?thesis using h1 h3 by auto
qed

section \<open>Properties of the loading stage\<close>


lemma column_present:
  "list_all (\<lambda>r. r name \<noteq> None) x \<Longrightarrow> column x name = Inr (map (\<lambda>r. the (r name)) x)"
  by (simp add: column_def)















end
